theory Spec2Isabelle
  imports Complex_Main
begin

section \<open>Python values used by the mixer\<close>

text \<open>
  The program is a single Python module. Python floats are modelled as \<^typ>\<open>real\<close>
  (the quotient \<open>msg.value / 127.0\<close> is taken as the exact quotient), Python integers
  as \<^typ>\<open>int\<close>. An exception that escapes a function is a value \<open>Inl e\<close> of a sum type.
\<close>

datatype py_error = IndexError | AttributeError | ValueError

text \<open>
  Subscripting a Python list: a negative subscript counts from the end, a subscript
  outside the list raises \<open>IndexError\<close>.
\<close>

definition py_index :: "nat \<Rightarrow> int \<Rightarrow> nat option" where
  "py_index len i =
     (if 0 \<le> i \<and> i < int len then Some (nat i)
      else if i < 0 \<and> - int len \<le> i then Some (nat (i + int len))
      else None)"

definition py_getitem :: "'a list \<Rightarrow> int \<Rightarrow> py_error + 'a" where
  "py_getitem xs i =
     (case py_index (length xs) i of None \<Rightarrow> Inl IndexError | Some k \<Rightarrow> Inr (xs ! k))"

definition py_setitem :: "'a list \<Rightarrow> int \<Rightarrow> 'a \<Rightarrow> py_error + 'a list" where
  "py_setitem xs i v =
     (case py_index (length xs) i of None \<Rightarrow> Inl IndexError | Some k \<Rightarrow> Inr (xs[k := v]))"

text \<open>\<open>int(x)\<close> on a float truncates towards zero.\<close>

definition py_int :: "real \<Rightarrow> int" where
  "py_int x = (if 0 \<le> x then \<lfloor>x\<rfloor> else \<lceil>x\<rceil>)"

section \<open>MIDIHandler\<close>

text \<open>
  A mido message is either a control change carrying \<open>control\<close> and \<open>value\<close>, or a
  message of another type (which has no \<open>control\<close> attribute).
\<close>

datatype midi_msg = ControlChange int int | OtherMessage

text \<open>The Qt signals of \<open>MIDIHandler\<close>, with their arguments.\<close>

datatype signal =
    FaderMoved int real
  | ButtonPressed int bool
  | KnobTurned int real
  | RawMessageReceived midi_msg

text \<open>Lines written to standard output by the \<open>except\<close> branches.\<close>

datatype console_line =
    ErrorConnecting
  | ErrorSettingVolume
  | ErrorTogglingMute
  | ErrorCheckingMute
  | ErrorGettingVolume

text \<open>
  The fields of \<open>MIDIHandler\<close>. An open input port is the list of its pending messages,
  an open output port the list of the messages sent through it so far; \<open>None\<close> is the
  Python \<open>None\<close> of a closed port.
\<close>

record MIDIHandler =
  midi_in :: "midi_msg list option"
  midi_out :: "midi_msg list option"
  device_name :: string
  fader_values :: "real list"
  button_states :: "bool list"
  knob_values :: "real list"

text \<open>\<open>MIDIHandler.__init__\<close>\<close>

definition MIDIHandler_init :: MIDIHandler where
  "MIDIHandler_init =
     \<lparr> midi_in = None, midi_out = None, device_name = [],
       fader_values = replicate 8 0,
       button_states = replicate 24 False,
       knob_values = replicate 8 0 \<rparr>"

text \<open>
  The three lists are allocated once by \<open>__init__\<close> and only ever updated by subscript,
  so they keep these lengths.
\<close>

definition sized :: "MIDIHandler \<Rightarrow> bool" where
  "sized h \<longleftrightarrow>
     length (fader_values h) = 8 \<and> length (button_states h) = 24 \<and> length (knob_values h) = 8"

text \<open>
  The device names the MIDI backend can open: \<open>mido.open_input\<close> and
  \<open>mido.open_output\<close> raise for any other name.
\<close>

record mido_backend =
  input_names :: "string list"
  output_names :: "string list"

text \<open>\<open>MIDIHandler.close\<close>\<close>

definition close :: "MIDIHandler \<Rightarrow> MIDIHandler" where
  "close h =
     (let h1 = (if midi_in h \<noteq> None then h\<lparr>midi_in := None\<rparr> else h)
      in if midi_out h1 \<noteq> None then h1\<lparr>midi_out := None\<rparr> else h1)"

text \<open>
  \<open>MIDIHandler.connect_device\<close>: the result is the handler, the returned boolean and
  what was printed. An exception of \<open>open_output\<close> leaves the input port, opened just
  before, in place.
\<close>

definition connect_device ::
  "MIDIHandler \<Rightarrow> mido_backend \<Rightarrow> string \<Rightarrow> string \<Rightarrow> MIDIHandler \<times> bool \<times> console_line list" where
  "connect_device h backend input_device_name output_device_name =
     (let h1 = close h in
      if input_device_name \<notin> set (input_names backend) then (h1, False, [ErrorConnecting])
      else
        let h2 = h1\<lparr>midi_in := Some []\<rparr> in
        if output_device_name \<notin> set (output_names backend) then (h2, False, [ErrorConnecting])
        else (h2\<lparr>midi_out := Some [], device_name := input_device_name\<rparr>, True, []))"

text \<open>
  \<open>MIDIHandler.process_control_change\<close>: the result is the handler after the message
  and the signals emitted, in order. Each \<open>emit\<close> is the last statement of its branch.
\<close>

fun process_control_change ::
  "MIDIHandler \<Rightarrow> midi_msg \<Rightarrow> py_error + (MIDIHandler \<times> signal list)" where
  "process_control_change h (ControlChange n r) =
     (if 0 \<le> n \<and> n \<le> 7 then
        (case py_setitem (fader_values h) n (real_of_int r / 127) of
           Inl e \<Rightarrow> Inl e
         | Inr fv \<Rightarrow> Inr (h\<lparr>fader_values := fv\<rparr>, [FaderMoved n (real_of_int r / 127)]))
      else if 16 \<le> n \<and> n \<le> 23 then
        (case py_setitem (knob_values h) (n - 16) (real_of_int r / 127) of
           Inl e \<Rightarrow> Inl e
         | Inr kv \<Rightarrow> Inr (h\<lparr>knob_values := kv\<rparr>, [KnobTurned (n - 16) (real_of_int r / 127)]))
      else if 32 \<le> n \<and> n \<le> 39 then
        (case py_getitem (button_states h) (n - 32) of
           Inl e \<Rightarrow> Inl e
         | Inr old \<Rightarrow>
             if old \<noteq> (64 \<le> r) then
               (case py_setitem (button_states h) (n - 32) (64 \<le> r) of
                  Inl e \<Rightarrow> Inl e
                | Inr bs \<Rightarrow> Inr (h\<lparr>button_states := bs\<rparr>, [ButtonPressed (n - 32) (64 \<le> r)]))
             else Inr (h, []))
      else Inr (h, []))"
| "process_control_change h OtherMessage = Inl AttributeError"

text \<open>
  \<open>MIDIHandler.send_led_feedback\<close>. With no output port it returns at once. Otherwise
  \<open>mido.Message\<close> builds the message first and raises \<open>ValueError\<close> for a control number
  outside 0..127, in which case nothing is sent.
\<close>

definition send_led_feedback :: "MIDIHandler \<Rightarrow> int \<Rightarrow> bool \<Rightarrow> py_error + MIDIHandler" where
  "send_led_feedback h button_idx state =
     (case midi_out h of
        None \<Rightarrow> Inr h
      | Some sent \<Rightarrow>
          (let cc = 32 + button_idx;
               v = (if state then 127 else 0)
           in if 0 \<le> cc \<and> cc \<le> 127
              then Inr (h\<lparr>midi_out := Some (sent @ [ControlChange cc v])\<rparr>)
              else Inl ValueError))"

section \<open>WindowsAudioMixer\<close>

text \<open>
  An audio session as the audio backend reports it: the name of its process when it has
  one, its volume and mute flag, and whether its COM interface answers (a call on a
  session that does not answer raises, and changes nothing). The master endpoint has
  the same three properties.
\<close>

record audio_session =
  process_name :: "string option"
  volume :: real
  mute :: bool
  responds :: bool

record endpoint_volume =
  master_level :: real
  master_mute :: bool
  master_responds :: bool

record WindowsAudioMixer =
  sessions :: "audio_session list"
  master_volume :: endpoint_volume

text \<open>
  The loop of \<open>update_sessions\<close> over \<open>enumerate(self.sessions)\<close>, the counter starting
  at \<open>i\<close>: a session is listed when it has a process with a non-empty name.
\<close>

fun app_entries :: "int \<Rightarrow> audio_session list \<Rightarrow> (int \<times> string) list" where
  "app_entries i [] = []"
| "app_entries i (session # rest) =
     (case process_name session of
        None \<Rightarrow> app_entries (i + 1) rest
      | Some name \<Rightarrow>
          if name \<noteq> [] then (i, name) # app_entries (i + 1) rest
          else app_entries (i + 1) rest)"

text \<open>
  \<open>WindowsAudioMixer.update_sessions\<close>; \<open>all_sessions\<close> is what
  \<open>AudioUtilities.GetAllSessions()\<close> returns.
\<close>

definition update_sessions ::
  "WindowsAudioMixer \<Rightarrow> audio_session list \<Rightarrow> WindowsAudioMixer \<times> (int \<times> string) list" where
  "update_sessions m all_sessions =
     (m\<lparr>sessions := all_sessions\<rparr>, (- 1, ''Master Volume'') # app_entries 0 all_sessions)"

text \<open>
  \<open>WindowsAudioMixer.set_volume\<close>: the mixer afterwards and what was printed. The
  function returns \<open>None\<close> on every path.
\<close>

definition set_volume ::
  "WindowsAudioMixer \<Rightarrow> int \<Rightarrow> real \<Rightarrow> WindowsAudioMixer \<times> console_line list" where
  "set_volume m session_idx v =
     (if session_idx = - 1 then
        (if master_responds (master_volume m)
         then (m\<lparr>master_volume := (master_volume m)\<lparr>master_level := v\<rparr>\<rparr>, [])
         else (m, [ErrorSettingVolume]))
      else if 0 \<le> session_idx \<and> session_idx < int (length (sessions m)) then
        (let session = sessions m ! nat session_idx in
         if responds session
         then (m\<lparr>sessions := (sessions m)[nat session_idx := session\<lparr>volume := v\<rparr>]\<rparr>, [])
         else (m, [ErrorSettingVolume]))
      else (m, []))"

text \<open>\<open>WindowsAudioMixer.toggle_mute\<close>: the mixer afterwards, the returned boolean, the output.\<close>

definition toggle_mute ::
  "WindowsAudioMixer \<Rightarrow> int \<Rightarrow> WindowsAudioMixer \<times> bool \<times> console_line list" where
  "toggle_mute m session_idx =
     (if session_idx = - 1 then
        (if master_responds (master_volume m)
         then (let current_mute = master_mute (master_volume m) in
               (m\<lparr>master_volume := (master_volume m)\<lparr>master_mute := \<not> current_mute\<rparr>\<rparr>,
                \<not> current_mute, []))
         else (m, False, [ErrorTogglingMute]))
      else if 0 \<le> session_idx \<and> session_idx < int (length (sessions m)) then
        (let session = sessions m ! nat session_idx in
         if responds session
         then (let current_mute = mute session in
               (m\<lparr>sessions := (sessions m)[nat session_idx := session\<lparr>mute := \<not> current_mute\<rparr>]\<rparr>,
                \<not> current_mute, []))
         else (m, False, [ErrorTogglingMute]))
      else (m, False, []))"

text \<open>\<open>WindowsAudioMixer.is_muted\<close>: the returned boolean and the output.\<close>

definition is_muted :: "WindowsAudioMixer \<Rightarrow> int \<Rightarrow> bool \<times> console_line list" where
  "is_muted m session_idx =
     (if session_idx = - 1 then
        (if master_responds (master_volume m)
         then (master_mute (master_volume m), [])
         else (False, [ErrorCheckingMute]))
      else if 0 \<le> session_idx \<and> session_idx < int (length (sessions m)) then
        (let session = sessions m ! nat session_idx in
         if responds session then (mute session, []) else (False, [ErrorCheckingMute]))
      else (False, []))"

text \<open>\<open>WindowsAudioMixer.get_volume\<close>: the returned float and the output.\<close>

definition get_volume :: "WindowsAudioMixer \<Rightarrow> int \<Rightarrow> real \<times> console_line list" where
  "get_volume m session_idx =
     (if session_idx = - 1 then
        (if master_responds (master_volume m)
         then (master_level (master_volume m), [])
         else (0, [ErrorGettingVolume]))
      else if 0 \<le> session_idx \<and> session_idx < int (length (sessions m)) then
        (let session = sessions m ! nat session_idx in
         if responds session then (volume session, []) else (0, [ErrorGettingVolume]))
      else (0, []))"

section \<open>ChannelStrip\<close>

text \<open>
  The state of a strip that the handlers read and write: \<open>current_data\<close> is
  \<open>app_selector.currentData()\<close> (the session chosen in the combo box, \<open>None\<close> for
  "Not Assigned"), \<open>fader\<close> the slider position (a \<open>QSlider\<close> with range 0 to 100),
  \<open>volume_label\<close> the percentage shown, \<open>mute_btn\<close> whether the button is checked.
\<close>

record ChannelStrip =
  channel_idx :: int
  strip_is_muted :: bool
  current_data :: "int option"
  fader :: int
  volume_label :: int
  mute_btn :: bool

text \<open>\<open>ChannelStrip.__init__\<close> with \<open>setup_ui\<close>\<close>

definition ChannelStrip_init :: "int \<Rightarrow> ChannelStrip" where
  "ChannelStrip_init i =
     \<lparr> channel_idx = i, strip_is_muted = False, current_data = None,
       fader = 0, volume_label = 0, mute_btn = False \<rparr>"

text \<open>\<open>ChannelStrip.set_fader_value\<close>; the slider keeps its value inside its range.\<close>

definition set_fader_value :: "ChannelStrip \<Rightarrow> real \<Rightarrow> ChannelStrip" where
  "set_fader_value strip v =
     (let value_percent = py_int (v * 100)
      in strip\<lparr>fader := max 0 (min 100 value_percent), volume_label := value_percent\<rparr>)"

text \<open>\<open>ChannelStrip.get_selected_session\<close>\<close>

definition get_selected_session :: "ChannelStrip \<Rightarrow> int option" where
  "get_selected_session strip = current_data strip"

text \<open>\<open>ChannelStrip.set_mute_state\<close>\<close>

definition set_mute_state :: "ChannelStrip \<Rightarrow> bool \<Rightarrow> ChannelStrip" where
  "set_mute_state strip muted = strip\<lparr>strip_is_muted := muted, mute_btn := muted\<rparr>"

section \<open>MainWindow\<close>

text \<open>
  The window owns the MIDI handler, the mixer and the eight strips; \<open>console\<close> collects
  what the program has printed.
\<close>

record MainWindow =
  midi_handler :: MIDIHandler
  audio_mixer :: WindowsAudioMixer
  channel_strips :: "ChannelStrip list"
  console :: "console_line list"

text \<open>\<open>MainWindow.on_midi_fader_moved\<close>\<close>

definition on_midi_fader_moved :: "MainWindow \<Rightarrow> int \<Rightarrow> real \<Rightarrow> MainWindow" where
  "on_midi_fader_moved w channel v =
     (if 0 \<le> channel \<and> channel < int (length (channel_strips w)) then
        (let strip = set_fader_value (channel_strips w ! nat channel) v;
             w1 = w\<lparr>channel_strips := (channel_strips w)[nat channel := strip]\<rparr>
         in case get_selected_session strip of
              None \<Rightarrow> w1
            | Some session_idx \<Rightarrow>
                (case set_volume (audio_mixer w1) session_idx v of
                   (m, out) \<Rightarrow> w1\<lparr>audio_mixer := m, console := console w1 @ out\<rparr>))
      else w)"

text \<open>
  \<open>MainWindow.on_midi_button_pressed\<close>; the body never reads \<open>state\<close>. An exception of
  \<open>send_led_feedback\<close> escapes the handler: the result is then the exception, and the
  state it leaves behind is not part of the model.
\<close>

definition on_midi_button_pressed :: "MainWindow \<Rightarrow> int \<Rightarrow> bool \<Rightarrow> py_error + MainWindow" where
  "on_midi_button_pressed w channel state =
     (if 0 \<le> channel \<and> channel < int (length (channel_strips w)) then
        (let strip = channel_strips w ! nat channel
         in case get_selected_session strip of
              None \<Rightarrow> Inr w
            | Some session_idx \<Rightarrow>
                (case toggle_mute (audio_mixer w) session_idx of
                   (m, new_mute_state, out) \<Rightarrow>
                     (case send_led_feedback (midi_handler w) channel new_mute_state of
                        Inl e \<Rightarrow> Inl e
                      | Inr h \<Rightarrow>
                          Inr (w\<lparr>audio_mixer := m,
                                 console := console w @ out,
                                 channel_strips :=
                                   (channel_strips w)
                                     [nat channel := set_mute_state strip new_mute_state],
                                 midi_handler := h\<rparr>))))
      else Inr w)"

text \<open>
  The slot connected to each signal in \<open>MainWindow.__init__\<close>. No slot is connected to
  \<open>knob_turned\<close>; \<open>on_raw_message_received\<close> only writes to the debug tab.
\<close>

fun deliver :: "MainWindow \<Rightarrow> signal \<Rightarrow> py_error + MainWindow" where
  "deliver w (FaderMoved channel v) = Inr (on_midi_fader_moved w channel v)"
| "deliver w (ButtonPressed channel state) = on_midi_button_pressed w channel state"
| "deliver w (KnobTurned channel v) = Inr w"
| "deliver w (RawMessageReceived msg) = Inr w"

text \<open>The signals of one message, delivered in the order of their \<open>emit\<close>.\<close>

fun deliver_all :: "MainWindow \<Rightarrow> signal list \<Rightarrow> py_error + MainWindow" where
  "deliver_all w [] = Inr w"
| "deliver_all w (sig # sigs) =
     (case deliver w sig of Inl e \<Rightarrow> Inl e | Inr w' \<Rightarrow> deliver_all w' sigs)"

text \<open>
  The loop of \<open>MIDIHandler.poll_messages\<close> over the pending messages. The slots run
  inside \<open>emit\<close>, so a message's signals are delivered before the next message is read.
\<close>

fun poll_loop :: "MainWindow \<Rightarrow> midi_msg list \<Rightarrow> py_error + MainWindow" where
  "poll_loop w [] = Inr w"
| "poll_loop w (msg # pending) =
     (case (case msg of
              ControlChange n r \<Rightarrow> process_control_change (midi_handler w) msg
            | OtherMessage \<Rightarrow> Inr (midi_handler w, [])) of
        Inl e \<Rightarrow> Inl e
      | Inr (h, sigs) \<Rightarrow>
          (case deliver_all (w\<lparr>midi_handler := h\<rparr>) (sigs @ [RawMessageReceived msg]) of
             Inl e \<Rightarrow> Inl e
           | Inr w' \<Rightarrow> poll_loop w' pending))"

text \<open>\<open>MIDIHandler.poll_messages\<close>: \<open>iter_pending\<close> takes the pending messages off the port.\<close>

definition poll_messages :: "MainWindow \<Rightarrow> py_error + MainWindow" where
  "poll_messages w =
     (case midi_in (midi_handler w) of
        None \<Rightarrow> Inr w
      | Some pending \<Rightarrow>
          poll_loop (w\<lparr>midi_handler := (midi_handler w)\<lparr>midi_in := Some []\<rparr>\<rparr>) pending)"

text \<open>
  The second half of \<open>MainWindow.update_loop\<close>: the loop over the strips that copies
  the audio state into the strips. It reads the mixer and returns the strips and the
  output of \<open>is_muted\<close>.
\<close>

fun update_strips ::
  "WindowsAudioMixer \<Rightarrow> ChannelStrip list \<Rightarrow> ChannelStrip list \<times> console_line list" where
  "update_strips m [] = ([], [])"
| "update_strips m (strip # rest) =
     (case update_strips m rest of
        (rest', out') \<Rightarrow>
          (case get_selected_session strip of
             None \<Rightarrow> (strip # rest', out')
           | Some session_idx \<Rightarrow>
               (case is_muted m session_idx of
                  (muted, out) \<Rightarrow>
                    ((if muted \<noteq> strip_is_muted strip then set_mute_state strip muted else strip)
                       # rest',
                     out @ out'))))"

text \<open>\<open>MainWindow.update_loop\<close>, one tick of the timer.\<close>

definition update_loop :: "MainWindow \<Rightarrow> py_error + MainWindow" where
  "update_loop w =
     (case poll_messages w of
        Inl e \<Rightarrow> Inl e
      | Inr w1 \<Rightarrow>
          (case update_strips (audio_mixer w1) (channel_strips w1) of
             (strips, out) \<Rightarrow> Inr (w1\<lparr>channel_strips := strips, console := console w1 @ out\<rparr>)))"

text \<open>\<open>WindowsAudioMixer.__init__\<close>, given the sessions and the master endpoint of the system.\<close>

definition WindowsAudioMixer_init :: "audio_session list \<Rightarrow> endpoint_volume \<Rightarrow> WindowsAudioMixer" where
  "WindowsAudioMixer_init all_sessions master =
     fst (update_sessions \<lparr> sessions = [], master_volume = master \<rparr> all_sessions)"

text \<open>
  \<open>MainWindow.__init__\<close> up to the device dialog: a fresh handler, the mixer, and the
  eight strips made by \<open>setup_ui\<close>.
\<close>

definition MainWindow_init :: "audio_session list \<Rightarrow> endpoint_volume \<Rightarrow> MainWindow" where
  "MainWindow_init all_sessions master =
     \<lparr> midi_handler = MIDIHandler_init,
       audio_mixer = WindowsAudioMixer_init all_sessions master,
       channel_strips = map (\<lambda>i. ChannelStrip_init (int i)) [0..<8],
       console = [] \<rparr>"

text \<open>The user picks an entry with item data \<open>data\<close> in the combo box of strip \<open>channel\<close>.\<close>

definition select_app :: "MainWindow \<Rightarrow> nat \<Rightarrow> int option \<Rightarrow> MainWindow" where
  "select_app w channel data =
     w\<lparr>channel_strips :=
         (channel_strips w)[channel := (channel_strips w ! channel)\<lparr>current_data := data\<rparr>]\<rparr>"

section \<open>A running system used in the examples\<close>

text \<open>
  Three sessions: a player that answers, a game whose COM interface does not answer,
  and an application that is muted. The controller is connected; strip 0 is assigned
  to the game (index 1), strip 3 to the application (index 2), strip 5 to index 7,
  which the mixer does not have.
\<close>

definition example_sessions :: "audio_session list" where
  "example_sessions =
     [\<lparr> process_name = Some ''player.exe'', volume = 1, mute = False, responds = True \<rparr>,
      \<lparr> process_name = Some ''game.exe'', volume = 1, mute = False, responds = False \<rparr>,
      \<lparr> process_name = Some ''app.exe'', volume = 1, mute = True, responds = True \<rparr>]"

definition example_master :: endpoint_volume where
  "example_master = \<lparr> master_level = 1, master_mute = False, master_responds = True \<rparr>"

definition example_mixer :: WindowsAudioMixer where
  "example_mixer = WindowsAudioMixer_init example_sessions example_master"

definition example_backend :: mido_backend where
  "example_backend = \<lparr> input_names = [''nanoKONTROL2''], output_names = [''nanoKONTROL2''] \<rparr>"

definition example_window :: MainWindow where
  "example_window =
     (let w = MainWindow_init example_sessions example_master;
          h = fst (connect_device (midi_handler w) example_backend ''nanoKONTROL2'' ''nanoKONTROL2'')
      in select_app (select_app (select_app (w\<lparr>midi_handler := h\<rparr>) 0 (Some 1)) 3 (Some 2))
           5 (Some 7))"

text \<open>The same system after the game, which does not answer, has been muted from outside.\<close>

definition example_window_game_muted :: MainWindow where
  "example_window_game_muted =
     example_window
       \<lparr>audio_mixer :=
          (audio_mixer example_window)
            \<lparr>sessions :=
               (sessions (audio_mixer example_window))
                 [1 := (sessions (audio_mixer example_window) ! 1)\<lparr>mute := True\<rparr>]\<rparr>\<rparr>"

section \<open>Properties of the decoder\<close>

lemma py_index_in_range:
  "0 \<le> i \<Longrightarrow> i < int len \<Longrightarrow> py_index len i = Some (nat i)"
  by (simp add: py_index_def)

lemma py_setitem_in_range:
  "0 \<le> i \<Longrightarrow> i < int (length xs) \<Longrightarrow> py_setitem xs i v = Inr (xs[nat i := v])"
  by (simp add: py_setitem_def py_index_in_range)

lemma py_getitem_in_range:
  "0 \<le> i \<Longrightarrow> i < int (length xs) \<Longrightarrow> py_getitem xs i = Inr (xs ! nat i)"
  by (simp add: py_getitem_def py_index_in_range)

lemma sized_init: "sized MIDIHandler_init"
  by (simp add: sized_def MIDIHandler_init_def)

lemma process_fader:
  assumes "sized h" "0 \<le> n" "n \<le> 7"
  shows "process_control_change h (ControlChange n r) =
           Inr (h\<lparr>fader_values := (fader_values h)[nat n := real_of_int r / 127]\<rparr>,
                [FaderMoved n (real_of_int r / 127)])"
  using assms by (simp add: sized_def py_setitem_in_range)

lemma process_knob:
  assumes "sized h" "16 \<le> n" "n \<le> 23"
  shows "process_control_change h (ControlChange n r) =
           Inr (h\<lparr>knob_values := (knob_values h)[nat (n - 16) := real_of_int r / 127]\<rparr>,
                [KnobTurned (n - 16) (real_of_int r / 127)])"
  using assms by (simp add: sized_def py_setitem_in_range)

lemma process_button:
  assumes "sized h" "32 \<le> n" "n \<le> 39"
  shows "process_control_change h (ControlChange n r) =
           Inr (if button_states h ! nat (n - 32) \<noteq> (64 \<le> r)
                then (h\<lparr>button_states := (button_states h)[nat (n - 32) := (64 \<le> r)]\<rparr>,
                      [ButtonPressed (n - 32) (64 \<le> r)])
                else (h, []))"
  using assms by (simp add: sized_def py_setitem_in_range py_getitem_in_range)

lemma process_keeps_sized:
  assumes "sized h" "process_control_change h m = Inr (h', sigs)"
  shows "sized h'"
proof (cases m)
  case OtherMessage
  with assms show ?thesis by simp
next
  case (ControlChange n r)
  with assms show ?thesis
    by (auto simp: sized_def py_setitem_def py_getitem_def
             split: if_splits option.splits sum.splits)
qed

lemma process_button_same:
  assumes "sized h" "32 \<le> n" "n \<le> 39" "button_states h ! nat (n - 32) = (64 \<le> r)"
  shows "process_control_change h (ControlChange n r) = Inr (h, [])"
  using assms by (simp add: sized_def py_getitem_in_range)

lemma process_button_edge:
  assumes "sized h" "32 \<le> n" "n \<le> 39" "button_states h ! nat (n - 32) \<noteq> (64 \<le> r)"
  shows "process_control_change h (ControlChange n r) =
           Inr (h\<lparr>button_states := (button_states h)[nat (n - 32) := (64 \<le> r)]\<rparr>,
                [ButtonPressed (n - 32) (64 \<le> r)])"
  using assms by (simp add: sized_def py_setitem_in_range py_getitem_in_range)

lemma button_index_in_range:
  "sized h \<Longrightarrow> 32 \<le> n \<Longrightarrow> n \<le> 39 \<Longrightarrow> nat (n - 32) < length (button_states h)"
  by (auto simp: sized_def)

subsection \<open>Claim C6: the decoding table\<close>

text \<open>
  C6. A control change with control number \<open>n\<close> and raw value \<open>r\<close> in 0..127 is
  decoded as the table says: for \<open>n\<close> in 0..7 the handler stores \<open>r / 127\<close> as the value
  of fader \<open>n\<close> and emits \<open>fader_moved(n, r / 127)\<close>; for \<open>n\<close> in 16..23 it stores and
  emits the knob value \<open>r / 127\<close> on channel \<open>n - 16\<close>; for \<open>n\<close> in 32..39 the button state
  of channel \<open>n - 32\<close> is \<open>r \<ge> 64\<close>, and the only signal that can be emitted is
  \<open>button_pressed(n - 32, r \<ge> 64)\<close>. The fader value lies in [0, 1] and is monotonic in
  the raw value.
\<close>

theorem decoding_exact:
  assumes "sized h" "0 \<le> r" "r \<le> 127"
  shows "(0 \<le> n \<and> n \<le> 7 \<longrightarrow>
            process_control_change h (ControlChange n r) =
              Inr (h\<lparr>fader_values := (fader_values h)[nat n := real_of_int r / 127]\<rparr>,
                   [FaderMoved n (real_of_int r / 127)]))
       \<and> (16 \<le> n \<and> n \<le> 23 \<longrightarrow>
            process_control_change h (ControlChange n r) =
              Inr (h\<lparr>knob_values := (knob_values h)[nat (n - 16) := real_of_int r / 127]\<rparr>,
                   [KnobTurned (n - 16) (real_of_int r / 127)]))
       \<and> (32 \<le> n \<and> n \<le> 39 \<longrightarrow>
            process_control_change h (ControlChange n r) =
              Inr (if button_states h ! nat (n - 32) \<noteq> (64 \<le> r)
                   then (h\<lparr>button_states := (button_states h)[nat (n - 32) := (64 \<le> r)]\<rparr>,
                         [ButtonPressed (n - 32) (64 \<le> r)])
                   else (h, [])))
       \<and> (0 \<le> n \<and> n \<le> 7 \<and> r \<le> r' \<and> r' \<le> 127
            \<and> process_control_change h (ControlChange n r) = Inr (h1, [FaderMoved c v])
            \<and> process_control_change h (ControlChange n r') = Inr (h2, [FaderMoved c' v'])
          \<longrightarrow> 0 \<le> v \<and> v \<le> v' \<and> v' \<le> 1)"
proof (intro conjI impI)
  assume "0 \<le> n \<and> n \<le> 7"
  then show "process_control_change h (ControlChange n r) =
              Inr (h\<lparr>fader_values := (fader_values h)[nat n := real_of_int r / 127]\<rparr>,
                   [FaderMoved n (real_of_int r / 127)])"
    using assms(1) process_fader [of h n r] by blast
next
  assume "16 \<le> n \<and> n \<le> 23"
  then show "process_control_change h (ControlChange n r) =
              Inr (h\<lparr>knob_values := (knob_values h)[nat (n - 16) := real_of_int r / 127]\<rparr>,
                   [KnobTurned (n - 16) (real_of_int r / 127)])"
    using assms(1) process_knob [of h n r] by blast
next
  assume "32 \<le> n \<and> n \<le> 39"
  then show "process_control_change h (ControlChange n r) =
              Inr (if button_states h ! nat (n - 32) \<noteq> (64 \<le> r)
                   then (h\<lparr>button_states := (button_states h)[nat (n - 32) := (64 \<le> r)]\<rparr>,
                         [ButtonPressed (n - 32) (64 \<le> r)])
                   else (h, []))"
    using assms(1) process_button [of h n r] by blast
next
  assume f: "0 \<le> n \<and> n \<le> 7 \<and> r \<le> r' \<and> r' \<le> 127
            \<and> process_control_change h (ControlChange n r) = Inr (h1, [FaderMoved c v])
            \<and> process_control_change h (ControlChange n r') = Inr (h2, [FaderMoved c' v'])"
  then have rng: "0 \<le> n" "n \<le> 7"
    and e1: "process_control_change h (ControlChange n r) = Inr (h1, [FaderMoved c v])"
    and e2: "process_control_change h (ControlChange n r') = Inr (h2, [FaderMoved c' v'])"
    by blast+
  have p1: "process_control_change h (ControlChange n r) =
             Inr (h\<lparr>fader_values := (fader_values h)[nat n := real_of_int r / 127]\<rparr>,
                  [FaderMoved n (real_of_int r / 127)])"
    using assms(1) rng by (rule process_fader)
  have p2: "process_control_change h (ControlChange n r') =
             Inr (h\<lparr>fader_values := (fader_values h)[nat n := real_of_int r' / 127]\<rparr>,
                  [FaderMoved n (real_of_int r' / 127)])"
    using assms(1) rng by (rule process_fader)
  from e1 p1 have v: "v = real_of_int r / 127"
    by (simp del: process_control_change.simps)
  from e2 p2 have v': "v' = real_of_int r' / 127"
    by (simp del: process_control_change.simps)
  from f have le: "r \<le> r'" "r' \<le> 127" by blast+
  show "0 \<le> v" using v assms(2) by simp
  show "v \<le> v'" using v v' le by (simp add: divide_right_mono)
  show "v' \<le> 1" using v' le by simp
qed

theorem decoding_exact_witness:
  "sized MIDIHandler_init
   \<and> process_control_change MIDIHandler_init (ControlChange 3 64) =
       Inr (MIDIHandler_init\<lparr>fader_values := (fader_values MIDIHandler_init)[3 := 64 / 127]\<rparr>,
            [FaderMoved 3 (64 / 127)])
   \<and> process_control_change MIDIHandler_init (ControlChange 17 127) =
       Inr (MIDIHandler_init\<lparr>knob_values := (knob_values MIDIHandler_init)[1 := 1]\<rparr>,
            [KnobTurned 1 1])
   \<and> process_control_change MIDIHandler_init (ControlChange 33 64) =
       Inr (MIDIHandler_init\<lparr>button_states := (button_states MIDIHandler_init)[1 := True]\<rparr>,
            [ButtonPressed 1 True])
   \<and> process_control_change MIDIHandler_init (ControlChange 33 63) = Inr (MIDIHandler_init, [])
   \<and> (0::real) \<le> 64 / 127 \<and> (64::real) / 127 \<le> 65 / 127 \<and> (65::real) / 127 \<le> 1"
proof -
  have b: "button_states MIDIHandler_init ! 1 = False"
    by (simp add: MIDIHandler_init_def)
  note f = decoding_exact [OF sized_init, where r = 64 and n = 3 and r' = 65]
  note g = decoding_exact [OF sized_init, where r = 65 and n = 3 and r' = 65]
  have f1: "process_control_change MIDIHandler_init (ControlChange 3 64) =
       Inr (MIDIHandler_init\<lparr>fader_values := (fader_values MIDIHandler_init)[3 := 64 / 127]\<rparr>,
            [FaderMoved 3 (64 / 127)])"
    using f by (simp del: process_control_change.simps)
  have f2: "process_control_change MIDIHandler_init (ControlChange 3 65) =
       Inr (MIDIHandler_init\<lparr>fader_values := (fader_values MIDIHandler_init)[3 := 65 / 127]\<rparr>,
            [FaderMoved 3 (65 / 127)])"
    using g by (simp del: process_control_change.simps)
  have mono: "(0::real) \<le> 64 / 127 \<and> (64::real) / 127 \<le> 65 / 127 \<and> (65::real) / 127 \<le> 1"
    using f1 f2
      decoding_exact [OF sized_init, where r = 64 and n = 3 and r' = 65
        and ?h1.0 = "MIDIHandler_init\<lparr>fader_values := (fader_values MIDIHandler_init)[3 := 64 / 127]\<rparr>"
        and c = 3 and v = "64 / 127"
        and ?h2.0 = "MIDIHandler_init\<lparr>fader_values := (fader_values MIDIHandler_init)[3 := 65 / 127]\<rparr>"
        and c' = 3 and v' = "65 / 127"]
    by (simp del: process_control_change.simps)
  have k: "process_control_change MIDIHandler_init (ControlChange 17 127) =
       Inr (MIDIHandler_init\<lparr>knob_values := (knob_values MIDIHandler_init)[1 := 1]\<rparr>,
            [KnobTurned 1 1])"
    using decoding_exact [OF sized_init, where r = 127 and n = 17]
    by (simp del: process_control_change.simps)
  have p: "process_control_change MIDIHandler_init (ControlChange 33 64) =
       Inr (MIDIHandler_init\<lparr>button_states := (button_states MIDIHandler_init)[1 := True]\<rparr>,
            [ButtonPressed 1 True])"
    using decoding_exact [OF sized_init, where r = 64 and n = 33] b
    by (simp del: process_control_change.simps)
  have q: "process_control_change MIDIHandler_init (ControlChange 33 63) = Inr (MIDIHandler_init, [])"
    using decoding_exact [OF sized_init, where r = 63 and n = 33] b
    by (simp del: process_control_change.simps)
  from sized_init f1 k p q mono show ?thesis by blast
qed

subsection \<open>Claim C7: button debounce\<close>

text \<open>
  C7. On a button channel, a control change emits \<open>button_pressed\<close> exactly when the
  decoded boolean differs from the boolean remembered for that channel, and a second
  control change with the same raw value, processed right after the first, emits nothing:
  two consecutive identical messages yield at most one signal.
\<close>

theorem button_debounce:
  assumes "sized h" "32 \<le> n" "n \<le> 39"
  shows "(let channel = n - 32;
              state = (64 \<le> r);
              changed = (button_states h ! nat channel \<noteq> state);
              h1 = (if changed
                    then h\<lparr>button_states := (button_states h)[nat channel := state]\<rparr>
                    else h)
          in process_control_change h (ControlChange n r) =
               Inr (h1, if changed then [ButtonPressed channel state] else [])
           \<and> process_control_change h1 (ControlChange n r) = Inr (h1, []))"
proof (cases "button_states h ! nat (n - 32) = (64 \<le> r)")
  case True
  then have "process_control_change h (ControlChange n r) = Inr (h, [])"
    using assms by (rule_tac process_button_same)
  with True show ?thesis by (simp only: Let_def simp_thms if_False)
next
  case False
  let ?h1 = "h\<lparr>button_states := (button_states h)[nat (n - 32) := (64 \<le> r)]\<rparr>"
  have first: "process_control_change h (ControlChange n r) =
                 Inr (?h1, [ButtonPressed (n - 32) (64 \<le> r)])"
    using assms False by (rule process_button_edge)
  have s1: "sized ?h1" using assms(1) by (simp add: sized_def)
  have "button_states ?h1 ! nat (n - 32) = (64 \<le> r)"
    using button_index_in_range [OF assms] by simp
  then have second: "process_control_change ?h1 (ControlChange n r) = Inr (?h1, [])"
    using s1 assms(2,3) by (rule_tac process_button_same)
  from False first second show ?thesis by (simp only: Let_def simp_thms if_True)
qed


theorem button_debounce_witness:
  "sized MIDIHandler_init \<and> (32::int) \<le> 33 \<and> (33::int) \<le> 39
   \<and> process_control_change MIDIHandler_init (ControlChange 33 64) =
       Inr (MIDIHandler_init\<lparr>button_states := (button_states MIDIHandler_init)[1 := True]\<rparr>,
            [ButtonPressed 1 True])
   \<and> process_control_change
         (MIDIHandler_init\<lparr>button_states := (button_states MIDIHandler_init)[1 := True]\<rparr>)
         (ControlChange 33 64) =
       Inr (MIDIHandler_init\<lparr>button_states := (button_states MIDIHandler_init)[1 := True]\<rparr>, [])"
proof -
  have b: "button_states MIDIHandler_init ! 1 = False"
    by (simp add: MIDIHandler_init_def)
  show ?thesis
    using button_debounce [OF sized_init, of 33 64] b sized_init
    by (simp add: Let_def del: process_control_change.simps)
qed

subsection \<open>Claim C10: control numbers outside the table\<close>

text \<open>
  C10. A control change whose control number is in 8..15, in 24..31 or at least 40 emits
  no fader, knob or button signal and leaves the handler, with its remembered fader
  values, knob values and button booleans, as it was; delivered through the polling
  loop it leaves the whole window unchanged.
\<close>

theorem unmapped_control_ignored:
  assumes "(8 \<le> n \<and> n \<le> 15) \<or> (24 \<le> n \<and> n \<le> 31) \<or> 40 \<le> n"
  shows "process_control_change h (ControlChange n r) = Inr (h, [])
         \<and> poll_loop w [ControlChange n r] = Inr w"
  using assms by auto

theorem unmapped_control_ignored_witness:
  "((8 \<le> (10::int) \<and> (10::int) \<le> 15) \<or> (24 \<le> (10::int) \<and> (10::int) \<le> 31) \<or> 40 \<le> (10::int))
   \<and> process_control_change MIDIHandler_init (ControlChange 10 99) = Inr (MIDIHandler_init, [])"
  using unmapped_control_ignored [of 10 MIDIHandler_init 99] by simp

section \<open>Properties of the mixer\<close>

lemma app_entries_bounds:
  "e \<in> set (app_entries i ss) \<Longrightarrow> i \<le> fst e \<and> fst e < i + int (length ss)"
proof (induction ss arbitrary: i)
  case Nil
  then show ?case by simp
next
  case (Cons s ss)
  from Cons.prems have "e = (i, the (process_name s)) \<or> e \<in> set (app_entries (i + 1) ss)"
    by (auto split: option.splits if_splits)
  then show ?case
  proof
    assume "e = (i, the (process_name s))"
    then show ?thesis by simp
  next
    assume "e \<in> set (app_entries (i + 1) ss)"
    from Cons.IH [OF this] show ?thesis by simp
  qed
qed

lemma app_entries_distinct: "distinct (map fst (app_entries i ss))"
proof (induction ss arbitrary: i)
  case Nil
  then show ?case by simp
next
  case (Cons s ss)
  have "i \<notin> fst ` set (app_entries (i + 1) ss)"
    using app_entries_bounds [of _ "i + 1" ss] by fastforce
  with Cons.IH [of "i + 1"] show ?case
    by (simp split: option.splits)
qed

subsection \<open>Claim C9: the master entry and its sentinel\<close>

text \<open>
  C9. In every list returned by \<open>update_sessions\<close> the master entry, with identifier
  \<open>-1\<close>, comes first; every other entry carries a non-negative index below the number of
  sessions, so none of them equals the master's identifier, and all identifiers of the
  list are distinct. The mixer keeps the sessions that were enumerated.
\<close>

theorem master_first_and_distinct:
  "hd (snd (update_sessions m all_sessions)) = (- 1, ''Master Volume'')
   \<and> (\<forall>e \<in> set (tl (snd (update_sessions m all_sessions))).
         0 \<le> fst e \<and> fst e < int (length all_sessions)
         \<and> fst e \<noteq> fst (hd (snd (update_sessions m all_sessions))))
   \<and> distinct (map fst (snd (update_sessions m all_sessions)))
   \<and> sessions (fst (update_sessions m all_sessions)) = all_sessions"
proof -
  let ?apps = "app_entries 0 all_sessions"
  have u: "snd (update_sessions m all_sessions) = (- 1, ''Master Volume'') # ?apps"
    by (simp add: update_sessions_def)
  have b: "\<forall>e \<in> set ?apps. 0 \<le> fst e \<and> fst e < int (length all_sessions) \<and> fst e \<noteq> - 1"
  proof
    fix e assume "e \<in> set ?apps"
    from app_entries_bounds [OF this] show "0 \<le> fst e \<and> fst e < int (length all_sessions) \<and> fst e \<noteq> - 1"
      by simp
  qed
  then have "- 1 \<notin> fst ` set ?apps"
    by (auto simp: image_iff)
  then have d: "distinct (map fst ((- 1, ''Master Volume'') # ?apps))"
    by (simp add: app_entries_distinct)
  have s: "sessions (fst (update_sessions m all_sessions)) = all_sessions"
    by (simp add: update_sessions_def)
  from b d s show ?thesis
    unfolding u by simp
qed

theorem master_first_and_distinct_witness:
  "(2, ''app.exe'') \<in> set (tl (snd (update_sessions example_mixer example_sessions)))
   \<and> (0::int) \<le> 2 \<and> (2::int) < int (length example_sessions)
   \<and> (2::int) \<noteq> fst (hd (snd (update_sessions example_mixer example_sessions)))"
proof -
  have m: "(2, ''app.exe'') \<in> set (tl (snd (update_sessions example_mixer example_sessions)))"
    by code_simp
  with master_first_and_distinct [of example_mixer example_sessions]
  have "0 \<le> fst (2::int, ''app.exe'') \<and> fst (2::int, ''app.exe'') < int (length example_sessions)
         \<and> fst (2::int, ''app.exe'') \<noteq> fst (hd (snd (update_sessions example_mixer example_sessions)))"
    by blast
  with m show ?thesis by simp
qed

subsection \<open>Claim C3: identifiers the mixer does not know\<close>

text \<open>
  C3, as the code has it. For an identifier that is neither \<open>-1\<close> nor an index into
  \<open>self.sessions\<close>, no operation signals an error: \<open>set_volume\<close> leaves the mixer as it
  was and prints nothing, \<open>get_volume\<close> returns \<open>0.0\<close>, \<open>is_muted\<close> returns \<open>False\<close>,
  and \<open>toggle_mute\<close> returns \<open>False\<close> and leaves the mixer as it was.
\<close>

theorem stale_identifier_defaults:
  assumes "session_idx \<noteq> - 1"
      and "\<not> (0 \<le> session_idx \<and> session_idx < int (length (sessions m)))"
  shows "set_volume m session_idx v = (m, [])
       \<and> get_volume m session_idx = (0, [])
       \<and> is_muted m session_idx = (False, [])
       \<and> toggle_mute m session_idx = (m, False, [])"
  using assms by (auto simp: set_volume_def get_volume_def is_muted_def toggle_mute_def)

theorem stale_identifier_defaults_witness:
  "(3::int) \<noteq> - 1 \<and> \<not> (0 \<le> (3::int) \<and> (3::int) < int (length (sessions example_mixer)))
   \<and> set_volume example_mixer 3 (1 / 4) = (example_mixer, [])
   \<and> get_volume example_mixer 3 = (0, [])
   \<and> is_muted example_mixer 3 = (False, [])
   \<and> toggle_mute example_mixer 3 = (example_mixer, False, [])"
proof -
  have l: "length (sessions example_mixer) = 3" by code_simp
  then have h: "\<not> (0 \<le> (3::int) \<and> (3::int) < int (length (sessions example_mixer)))" by simp
  have n: "(3::int) \<noteq> - 1" by simp
  from stale_identifier_defaults [OF n h] n h show ?thesis by blast
qed

text \<open>
  The mixer of the example has three sessions. On identifier 7 the four operations
  return their defaults silently, where C3 asks for a \<open>NotFound\<close> error.
\<close>

theorem stale_identifier_silent_counterexample:
  "get_volume example_mixer 7 = (0, [])
   \<and> is_muted example_mixer 7 = (False, [])
   \<and> toggle_mute example_mixer 7 = (example_mixer, False, [])
   \<and> set_volume example_mixer 7 (1 / 2) = (example_mixer, [])
   \<and> length (sessions example_mixer) = 3"
  by code_simp

section \<open>Properties of the window\<close>

lemma selected_set_fader_value [simp]:
  "get_selected_session (set_fader_value strip v) = get_selected_session strip"
  by (simp add: get_selected_session_def set_fader_value_def Let_def)

lemma selected_set_mute_state [simp]:
  "get_selected_session (set_mute_state strip muted) = get_selected_session strip"
  by (simp add: get_selected_session_def set_mute_state_def)

lemma map_update_same:
  assumes "f y = f (xs ! k)"
  shows "map f (xs[k := y]) = map f xs"
proof (cases "k < length xs")
  case True
  with assms show ?thesis
    by (simp add: map_update list_update_same_conv)
next
  case False
  then have "length xs \<le> k" by (simp add: not_less)
  then have "xs[k := y] = xs" by (rule list_update_beyond)
  then show ?thesis by (rule arg_cong)
qed

lemma fader_keeps_bindings:
  "map get_selected_session (channel_strips (on_midi_fader_moved w channel v)) =
   map get_selected_session (channel_strips w)"
  by (simp add: on_midi_fader_moved_def Let_def map_update_same split: option.splits prod.splits)

lemma fader_keeps_handler:
  "midi_handler (on_midi_fader_moved w channel v) = midi_handler w"
  by (simp add: on_midi_fader_moved_def Let_def split: option.splits prod.splits)

lemma send_led_sized:
  "send_led_feedback h button_idx state = Inr h' \<Longrightarrow> sized h' = sized h"
  by (auto simp: send_led_feedback_def sized_def Let_def split: option.splits if_splits)

lemma send_led_total:
  "0 \<le> button_idx \<Longrightarrow> button_idx \<le> 95 \<Longrightarrow> \<exists>h'. send_led_feedback h button_idx state = Inr h'"
  by (simp add: send_led_feedback_def Let_def split: option.splits)

lemma send_led_out_of_range:
  "midi_out h = Some sent \<Longrightarrow> 95 < button_idx \<Longrightarrow>
   send_led_feedback h button_idx state = Inl ValueError"
  by (simp add: send_led_feedback_def Let_def)

lemma button_keeps:
  assumes "on_midi_button_pressed w channel state = Inr w'"
  shows "map get_selected_session (channel_strips w') = map get_selected_session (channel_strips w)"
    and "sized (midi_handler w') = sized (midi_handler w)"
  using assms
  by (auto simp: on_midi_button_pressed_def Let_def map_update_same send_led_sized
           split: option.splits prod.splits sum.splits if_splits)

lemma button_total:
  assumes "channel \<le> 95"
  shows "\<exists>w'. on_midi_button_pressed w channel state = Inr w'"
proof (cases "0 \<le> channel \<and> channel < int (length (channel_strips w))")
  case False
  then show ?thesis by (auto simp: on_midi_button_pressed_def)
next
  case True
  show ?thesis
  proof (cases "get_selected_session (channel_strips w ! nat channel)")
    case None
    with True show ?thesis by (simp add: on_midi_button_pressed_def)
  next
    case (Some session_idx)
    obtain m b out where t: "toggle_mute (audio_mixer w) session_idx = (m, b, out)"
      by (cases "toggle_mute (audio_mixer w) session_idx") auto
    from True assms send_led_total [of channel "midi_handler w" b]
    obtain h where "send_led_feedback (midi_handler w) channel b = Inr h" by blast
    with True Some t show ?thesis by (simp add: on_midi_button_pressed_def)
  qed
qed

lemma deliver_keeps:
  assumes "\<forall>c st. sig = ButtonPressed c st \<longrightarrow> c \<le> 95"
  shows "\<exists>w'. deliver w sig = Inr w'
           \<and> map get_selected_session (channel_strips w') =
               map get_selected_session (channel_strips w)
           \<and> sized (midi_handler w') = sized (midi_handler w)"
proof (cases sig)
  case (FaderMoved c v)
  then show ?thesis by (simp add: fader_keeps_bindings fader_keeps_handler)
next
  case (ButtonPressed c st)
  with assms have "c \<le> 95" by simp
  from button_total [OF this, of w st] obtain w' where
    b: "on_midi_button_pressed w c st = Inr w'" ..
  from button_keeps [OF b] b ButtonPressed show ?thesis by simp
next
  case (KnobTurned c v)
  then show ?thesis by simp
next
  case (RawMessageReceived msg)
  then show ?thesis by simp
qed

lemma deliver_all_keeps:
  assumes "\<forall>sig \<in> set sigs. \<forall>c st. sig = ButtonPressed c st \<longrightarrow> c \<le> 95"
  shows "\<exists>w'. deliver_all w sigs = Inr w'
           \<and> map get_selected_session (channel_strips w') =
               map get_selected_session (channel_strips w)
           \<and> sized (midi_handler w') = sized (midi_handler w)"
  using assms
proof (induction sigs arbitrary: w)
  case Nil
  then show ?case by simp
next
  case (Cons sig sigs)
  from Cons.prems have "\<forall>c st. sig = ButtonPressed c st \<longrightarrow> c \<le> 95" by simp
  from deliver_keeps [OF this, of w] obtain w1 where
    d: "deliver w sig = Inr w1"
       "map get_selected_session (channel_strips w1) = map get_selected_session (channel_strips w)"
       "sized (midi_handler w1) = sized (midi_handler w)"
    by blast
  from Cons.prems have "\<forall>sig \<in> set sigs. \<forall>c st. sig = ButtonPressed c st \<longrightarrow> c \<le> 95"
    by simp
  from Cons.IH [OF this, of w1] d show ?case by simp
qed

lemma process_signals_small:
  assumes "process_control_change h (ControlChange n r) = Inr (h', sigs)"
  shows "\<forall>sig \<in> set sigs. \<forall>c st. sig = ButtonPressed c st \<longrightarrow> c \<le> 95"
  using assms by (auto split: if_splits sum.splits)

lemma process_total:
  assumes "sized h"
  shows "\<exists>h' sigs. process_control_change h (ControlChange n r) = Inr (h', sigs) \<and> sized h'"
proof -
  have "\<exists>res. process_control_change h (ControlChange n r) = Inr res"
    using assms
    by (auto simp: sized_def py_setitem_in_range py_getitem_in_range)
  then obtain h' sigs where "process_control_change h (ControlChange n r) = Inr (h', sigs)"
    by force
  with assms process_keeps_sized show ?thesis by blast
qed

lemma poll_loop_keeps:
  assumes "sized (midi_handler w)"
  shows "\<exists>w'. poll_loop w msgs = Inr w'
           \<and> map get_selected_session (channel_strips w') =
               map get_selected_session (channel_strips w)
           \<and> sized (midi_handler w')"
  using assms
proof (induction msgs arbitrary: w)
  case Nil
  then show ?case by simp
next
  case (Cons msg msgs)
  have "\<exists>h sigs. (case msg of
              ControlChange n r \<Rightarrow> process_control_change (midi_handler w) msg
            | OtherMessage \<Rightarrow> Inr (midi_handler w, [])) = Inr (h, sigs)
          \<and> sized h
          \<and> (\<forall>sig \<in> set sigs. \<forall>c st. sig = ButtonPressed c st \<longrightarrow> c \<le> 95)"
  proof (cases msg)
    case OtherMessage
    with Cons.prems show ?thesis by simp
  next
    case (ControlChange n r)
    from process_total [OF Cons.prems, of n r] obtain h sigs where
      p: "process_control_change (midi_handler w) (ControlChange n r) = Inr (h, sigs)"
      and sh: "sized h" by blast
    from process_signals_small [OF p] p sh ControlChange show ?thesis
      by (simp del: process_control_change.simps)
  qed
  then obtain h sigs where
    p: "(case msg of
              ControlChange n r \<Rightarrow> process_control_change (midi_handler w) msg
            | OtherMessage \<Rightarrow> Inr (midi_handler w, [])) = Inr (h, sigs)"
    and sh: "sized h"
    and small: "\<forall>sig \<in> set sigs. \<forall>c st. sig = ButtonPressed c st \<longrightarrow> c \<le> 95"
    by blast
  from small have "\<forall>sig \<in> set (sigs @ [RawMessageReceived msg]).
                     \<forall>c st. sig = ButtonPressed c st \<longrightarrow> c \<le> 95"
    by auto
  from deliver_all_keeps [OF this, of "w\<lparr>midi_handler := h\<rparr>"] sh obtain w1 where
    d: "deliver_all (w\<lparr>midi_handler := h\<rparr>) (sigs @ [RawMessageReceived msg]) = Inr w1"
       "map get_selected_session (channel_strips w1) = map get_selected_session (channel_strips w)"
       "sized (midi_handler w1)"
    by auto
  from Cons.IH [OF d(3)] obtain w' where
    r: "poll_loop w1 msgs = Inr w'"
       "map get_selected_session (channel_strips w') = map get_selected_session (channel_strips w1)"
       "sized (midi_handler w')"
    by blast
  have "poll_loop w (msg # msgs) = Inr w'"
    using p d(1) r(1) by (simp del: process_control_change.simps)
  with r d show ?case by simp
qed

lemma poll_messages_total:
  assumes "sized (midi_handler w)"
  shows "\<exists>w1. poll_messages w = Inr w1"
proof (cases "midi_in (midi_handler w)")
  case None
  then show ?thesis by (simp add: poll_messages_def)
next
  case (Some pending)
  have "sized (midi_handler (w\<lparr>midi_handler := (midi_handler w)\<lparr>midi_in := Some []\<rparr>\<rparr>))"
    using assms by (simp add: sized_def)
  from poll_loop_keeps [OF this, of pending] Some show ?thesis
    by (auto simp: poll_messages_def)
qed

lemma fst_update_strips_Cons:
  "fst (update_strips m (strip # rest)) =
     (case get_selected_session strip of
        None \<Rightarrow> strip
      | Some session_idx \<Rightarrow>
          if fst (is_muted m session_idx) \<noteq> strip_is_muted strip
          then set_mute_state strip (fst (is_muted m session_idx))
          else strip) # fst (update_strips m rest)"
  by (auto split: prod.splits option.splits)

lemma update_strips_length: "length (fst (update_strips m strips)) = length strips"
  by (induction strips) (simp_all add: fst_update_strips_Cons del: update_strips.simps(2))

lemma update_strips_nth:
  "i < length strips \<Longrightarrow>
   fst (update_strips m strips) ! i =
     (case get_selected_session (strips ! i) of
        None \<Rightarrow> strips ! i
      | Some session_idx \<Rightarrow>
          if fst (is_muted m session_idx) \<noteq> strip_is_muted (strips ! i)
          then set_mute_state (strips ! i) (fst (is_muted m session_idx))
          else strips ! i)"
proof (induction strips arbitrary: i)
  case Nil
  then show ?case by simp
next
  case (Cons strip rest)
  show ?case
  proof (cases i)
    case 0
    then show ?thesis
      by (simp add: fst_update_strips_Cons del: update_strips.simps(2) split: option.splits)
  next
    case (Suc j)
    with Cons.prems have "j < length rest" by simp
    from Cons.IH [OF this] Suc show ?thesis
      by (simp add: fst_update_strips_Cons del: update_strips.simps(2) split: option.splits)
  qed
qed

lemma update_strips_cache:
  assumes "i < length strips"
  shows "get_selected_session (fst (update_strips m strips) ! i) = get_selected_session (strips ! i)"
    and "get_selected_session (strips ! i) = Some session_idx \<Longrightarrow>
         strip_is_muted (fst (update_strips m strips) ! i) = fst (is_muted m session_idx)"
  using assms
  by (auto simp: update_strips_nth set_mute_state_def get_selected_session_def
           split: option.splits)

lemma is_muted_master:
  "master_responds (master_volume m) \<Longrightarrow> is_muted m (- 1) = (master_mute (master_volume m), [])"
  by (simp add: is_muted_def)

lemma is_muted_session:
  "0 \<le> session_idx \<Longrightarrow> session_idx < int (length (sessions m)) \<Longrightarrow>
   responds (sessions m ! nat session_idx) \<Longrightarrow>
   is_muted m session_idx = (mute (sessions m ! nat session_idx), [])"
  by (auto simp: is_muted_def)

subsection \<open>Claim C2: backend errors and the binding of a slot\<close>

text \<open>
  C2, as the code has it. An error of the audio backend in \<open>set_volume\<close> or
  \<open>toggle_mute\<close>, on a session or on the master endpoint, is caught inside the mixer:
  the mixer is left as it was, one line is printed, and \<open>toggle_mute\<close> returns \<open>False\<close>.
  The window keeps no failure counter. The fader handler, the button handler (which
  completes for every channel the controller has) and the polling loop over any list of
  messages leave the session selected on every strip as it was: a slot stays bound after
  any number of consecutive failures.
\<close>

theorem backend_errors_keep_binding:
  "map get_selected_session (channel_strips (on_midi_fader_moved w channel v)) =
     map get_selected_session (channel_strips w)
   \<and> (channel \<le> 95 \<longrightarrow>
        (\<exists>w'. on_midi_button_pressed w channel state = Inr w'
           \<and> map get_selected_session (channel_strips w') =
               map get_selected_session (channel_strips w)))
   \<and> (sized (midi_handler w) \<longrightarrow>
        (\<exists>w'. poll_loop w msgs = Inr w'
           \<and> map get_selected_session (channel_strips w') =
               map get_selected_session (channel_strips w)))
   \<and> (0 \<le> session_idx \<and> session_idx < int (length (sessions m))
        \<and> \<not> responds (sessions m ! nat session_idx) \<longrightarrow>
        set_volume m session_idx v = (m, [ErrorSettingVolume])
        \<and> toggle_mute m session_idx = (m, False, [ErrorTogglingMute]))
   \<and> (\<not> master_responds (master_volume m) \<longrightarrow>
        set_volume m (- 1) v = (m, [ErrorSettingVolume])
        \<and> toggle_mute m (- 1) = (m, False, [ErrorTogglingMute]))"
proof (intro conjI impI)
  show "map get_selected_session (channel_strips (on_midi_fader_moved w channel v)) =
     map get_selected_session (channel_strips w)"
    by (rule fader_keeps_bindings)
next
  assume "channel \<le> 95"
  from button_total [OF this, of w state] obtain w' where
    b: "on_midi_button_pressed w channel state = Inr w'" ..
  from button_keeps(1) [OF b] b
  show "\<exists>w'. on_midi_button_pressed w channel state = Inr w'
           \<and> map get_selected_session (channel_strips w') =
               map get_selected_session (channel_strips w)"
    by blast
next
  assume "sized (midi_handler w)"
  from poll_loop_keeps [OF this, of msgs]
  show "\<exists>w'. poll_loop w msgs = Inr w'
           \<and> map get_selected_session (channel_strips w') =
               map get_selected_session (channel_strips w)"
    by blast
next
  assume a: "0 \<le> session_idx \<and> session_idx < int (length (sessions m))
        \<and> \<not> responds (sessions m ! nat session_idx)"
  then show "set_volume m session_idx v = (m, [ErrorSettingVolume])"
    by (auto simp: set_volume_def)
  from a show "toggle_mute m session_idx = (m, False, [ErrorTogglingMute])"
    by (auto simp: toggle_mute_def)
next
  assume a: "\<not> master_responds (master_volume m)"
  then show "set_volume m (- 1) v = (m, [ErrorSettingVolume])"
    by (simp add: set_volume_def)
  from a show "toggle_mute m (- 1) = (m, False, [ErrorTogglingMute])"
    by (simp add: toggle_mute_def)
qed

theorem backend_errors_keep_binding_witness:
  "(0::int) \<le> 95
   \<and> (\<exists>w'. on_midi_button_pressed example_window 0 True = Inr w'
          \<and> map get_selected_session (channel_strips w') =
              [Some 1, None, None, Some 2, None, Some 7, None, None])
   \<and> sized (midi_handler example_window)
   \<and> (\<exists>w'. poll_loop example_window [ControlChange 0 10, ControlChange 0 20, ControlChange 0 30] = Inr w'
          \<and> map get_selected_session (channel_strips w') =
              [Some 1, None, None, Some 2, None, Some 7, None, None])
   \<and> (0::int) \<le> 1 \<and> (1::int) < int (length (sessions example_mixer))
   \<and> \<not> responds (sessions example_mixer ! nat 1)
   \<and> set_volume example_mixer 1 (1 / 2) = (example_mixer, [ErrorSettingVolume])
   \<and> toggle_mute example_mixer 1 = (example_mixer, False, [ErrorTogglingMute])
   \<and> \<not> master_responds
          (master_volume (example_mixer\<lparr>master_volume := example_master\<lparr>master_responds := False\<rparr>\<rparr>))
   \<and> set_volume (example_mixer\<lparr>master_volume := example_master\<lparr>master_responds := False\<rparr>\<rparr>)
         (- 1) (1 / 2) =
       (example_mixer\<lparr>master_volume := example_master\<lparr>master_responds := False\<rparr>\<rparr>,
        [ErrorSettingVolume])
   \<and> toggle_mute (example_mixer\<lparr>master_volume := example_master\<lparr>master_responds := False\<rparr>\<rparr>)
         (- 1) =
       (example_mixer\<lparr>master_volume := example_master\<lparr>master_responds := False\<rparr>\<rparr>,
        False, [ErrorTogglingMute])"
proof -
  have s: "sized (midi_handler example_window)"
    unfolding sized_def by code_simp
  have b: "map get_selected_session (channel_strips example_window) =
             [Some 1, None, None, Some 2, None, Some 7, None, None]"
    by code_simp
  have r: "(0::int) \<le> 1 \<and> (1::int) < int (length (sessions example_mixer))
             \<and> \<not> responds (sessions example_mixer ! nat 1)"
    by code_simp
  have k: "\<not> master_responds
          (master_volume (example_mixer\<lparr>master_volume := example_master\<lparr>master_responds := False\<rparr>\<rparr>))"
    by simp
  note t1 = backend_errors_keep_binding
         [where w = example_window and channel = 0 and state = True
            and msgs = "[ControlChange 0 10, ControlChange 0 20, ControlChange 0 30]"
            and m = example_mixer and session_idx = 1 and v = "1 / 2"]
  note t2 = backend_errors_keep_binding
         [where m = "example_mixer\<lparr>master_volume := example_master\<lparr>master_responds := False\<rparr>\<rparr>"
            and v = "1 / 2"]
  from t1 s b r have 1:
    "(\<exists>w'. on_midi_button_pressed example_window 0 True = Inr w'
          \<and> map get_selected_session (channel_strips w') =
              [Some 1, None, None, Some 2, None, Some 7, None, None])
     \<and> (\<exists>w'. poll_loop example_window [ControlChange 0 10, ControlChange 0 20, ControlChange 0 30] = Inr w'
          \<and> map get_selected_session (channel_strips w') =
              [Some 1, None, None, Some 2, None, Some 7, None, None])
     \<and> set_volume example_mixer 1 (1 / 2) = (example_mixer, [ErrorSettingVolume])
     \<and> toggle_mute example_mixer 1 = (example_mixer, False, [ErrorTogglingMute])"
    by simp
  from t2 k have 2:
    "set_volume (example_mixer\<lparr>master_volume := example_master\<lparr>master_responds := False\<rparr>\<rparr>)
         (- 1) (1 / 2) =
       (example_mixer\<lparr>master_volume := example_master\<lparr>master_responds := False\<rparr>\<rparr>,
        [ErrorSettingVolume])
     \<and> toggle_mute (example_mixer\<lparr>master_volume := example_master\<lparr>master_responds := False\<rparr>\<rparr>)
         (- 1) =
       (example_mixer\<lparr>master_volume := example_master\<lparr>master_responds := False\<rparr>\<rparr>,
        False, [ErrorTogglingMute])"
    by blast
  from 1 2 s r k show ?thesis by simp
qed

text \<open>
  Strip 0 of the example is bound to the session that does not answer. After three
  fader moves in a row, each of which fails in the backend, the strip is still bound to
  it; each of three button presses in a row fails in the backend and leaves the strips
  as they were.
\<close>

theorem three_failures_still_bound_counterexample:
  "\<not> responds (sessions (audio_mixer example_window) ! 1)
   \<and> get_selected_session (channel_strips example_window ! 0) = Some 1
   \<and> get_selected_session
        (channel_strips
           (on_midi_fader_moved
              (on_midi_fader_moved
                 (on_midi_fader_moved example_window 0 (10 / 127)) 0 (20 / 127)) 0 (30 / 127)) ! 0)
       = Some 1
   \<and> console
        (on_midi_fader_moved
           (on_midi_fader_moved
              (on_midi_fader_moved example_window 0 (10 / 127)) 0 (20 / 127)) 0 (30 / 127))
       = [ErrorSettingVolume, ErrorSettingVolume, ErrorSettingVolume]
   \<and> on_midi_button_pressed example_window 0 True =
       Inr (example_window
              \<lparr>midi_handler := (midi_handler example_window)\<lparr>midi_out := Some [ControlChange 32 0]\<rparr>,
               console := [ErrorTogglingMute]\<rparr>)
   \<and> on_midi_button_pressed
        (example_window
           \<lparr>midi_handler := (midi_handler example_window)\<lparr>midi_out := Some [ControlChange 32 0]\<rparr>,
            console := [ErrorTogglingMute]\<rparr>) 0 True =
       Inr (example_window
              \<lparr>midi_handler :=
                 (midi_handler example_window)
                   \<lparr>midi_out := Some [ControlChange 32 0, ControlChange 32 0]\<rparr>,
               console := [ErrorTogglingMute, ErrorTogglingMute]\<rparr>)
   \<and> on_midi_button_pressed
        (example_window
           \<lparr>midi_handler :=
              (midi_handler example_window)
                \<lparr>midi_out := Some [ControlChange 32 0, ControlChange 32 0]\<rparr>,
            console := [ErrorTogglingMute, ErrorTogglingMute]\<rparr>) 0 True =
       Inr (example_window
              \<lparr>midi_handler :=
                 (midi_handler example_window)
                   \<lparr>midi_out := Some [ControlChange 32 0, ControlChange 32 0, ControlChange 32 0]\<rparr>,
               console := [ErrorTogglingMute, ErrorTogglingMute, ErrorTogglingMute]\<rparr>)"
  by code_simp

subsection \<open>Claim C4: LED feedback after a button press\<close>

text \<open>
  C4, as the code has it, for a press (\<open>state = True\<close>). The handler keeps no record of
  the LED state it sent last. For a strip that is bound, with the output port open, it
  sends exactly one LED message, on control number 32 plus the channel, carrying the
  mute state that \<open>toggle_mute\<close> returned (127 when muted, 0 otherwise), stores that
  state on the strip and keeps the mixer \<open>toggle_mute\<close> produced, whether or not the
  state equals the one sent before. For an unbound strip, or a channel that is not a
  strip, it does nothing.
\<close>

theorem led_sent_on_every_press:
  "(0 \<le> channel \<and> channel < int (length (channel_strips w)) \<and> channel \<le> 95
      \<and> get_selected_session (channel_strips w ! nat channel) = Some session_idx
      \<and> midi_out (midi_handler w) = Some sent
    \<longrightarrow> on_midi_button_pressed w channel True =
          Inr (w\<lparr>audio_mixer := fst (toggle_mute (audio_mixer w) session_idx),
                 console := console w @ snd (snd (toggle_mute (audio_mixer w) session_idx)),
                 channel_strips :=
                   (channel_strips w)
                     [nat channel :=
                        set_mute_state (channel_strips w ! nat channel)
                          (fst (snd (toggle_mute (audio_mixer w) session_idx)))],
                 midi_handler :=
                   (midi_handler w)
                     \<lparr>midi_out :=
                        Some (sent @
                          [ControlChange (32 + channel)
                             (if fst (snd (toggle_mute (audio_mixer w) session_idx))
                              then 127 else 0)])\<rparr>\<rparr>))
   \<and> (0 \<le> channel \<and> channel < int (length (channel_strips w))
      \<and> get_selected_session (channel_strips w ! nat channel) = None
    \<longrightarrow> on_midi_button_pressed w channel True = Inr w)
   \<and> (\<not> (0 \<le> channel \<and> channel < int (length (channel_strips w)))
    \<longrightarrow> on_midi_button_pressed w channel True = Inr w)"
  by (auto simp: on_midi_button_pressed_def send_led_feedback_def Let_def
           split: prod.splits)

theorem led_sent_on_every_press_witness:
  "(0::int) \<le> 3 \<and> (3::int) < int (length (channel_strips example_window)) \<and> (3::int) \<le> 95
   \<and> get_selected_session (channel_strips example_window ! nat 3) = Some 2
   \<and> midi_out (midi_handler example_window) = Some []
   \<and> on_midi_button_pressed example_window 3 True =
       Inr (example_window
              \<lparr>audio_mixer := fst (toggle_mute (audio_mixer example_window) 2),
               channel_strips :=
                 (channel_strips example_window)
                   [3 := set_mute_state (channel_strips example_window ! 3) False],
               midi_handler :=
                 (midi_handler example_window)\<lparr>midi_out := Some [ControlChange 35 0]\<rparr>\<rparr>)
   \<and> get_selected_session (channel_strips example_window ! nat 1) = None
   \<and> on_midi_button_pressed example_window 1 True = Inr example_window
   \<and> \<not> (0 \<le> (8::int) \<and> (8::int) < int (length (channel_strips example_window)))
   \<and> on_midi_button_pressed example_window 8 True = Inr example_window"
proof -
  have a: "(0::int) \<le> 3 \<and> (3::int) < int (length (channel_strips example_window))
           \<and> (3::int) \<le> 95
           \<and> get_selected_session (channel_strips example_window ! nat 3) = Some 2
           \<and> midi_out (midi_handler example_window) = Some []"
    by code_simp
  have t: "fst (snd (toggle_mute (audio_mixer example_window) 2)) = False"
          "snd (snd (toggle_mute (audio_mixer example_window) 2)) = []"
          "console example_window = []"
    by code_simp+
  have b: "(0::int) \<le> 1 \<and> (1::int) < int (length (channel_strips example_window))
           \<and> get_selected_session (channel_strips example_window ! nat 1) = None"
    by code_simp
  have c: "\<not> (0 \<le> (8::int) \<and> (8::int) < int (length (channel_strips example_window)))"
    by code_simp
  from led_sent_on_every_press
         [where w = example_window and channel = 3 and session_idx = 2 and sent = "[]"]
       a
  have "on_midi_button_pressed example_window 3 True =
          Inr (example_window
                \<lparr>audio_mixer := fst (toggle_mute (audio_mixer example_window) 2),
                 console := console example_window
                            @ snd (snd (toggle_mute (audio_mixer example_window) 2)),
                 channel_strips :=
                   (channel_strips example_window)
                     [nat 3 :=
                        set_mute_state (channel_strips example_window ! nat 3)
                          (fst (snd (toggle_mute (audio_mixer example_window) 2)))],
                 midi_handler :=
                   (midi_handler example_window)
                     \<lparr>midi_out :=
                        Some ([] @
                          [ControlChange (32 + 3)
                             (if fst (snd (toggle_mute (audio_mixer example_window) 2))
                              then 127 else 0)])\<rparr>\<rparr>)"
    by blast
  then have 1: "on_midi_button_pressed example_window 3 True =
       Inr (example_window
              \<lparr>audio_mixer := fst (toggle_mute (audio_mixer example_window) 2),
               channel_strips :=
                 (channel_strips example_window)
                   [3 := set_mute_state (channel_strips example_window ! 3) False],
               midi_handler :=
                 (midi_handler example_window)\<lparr>midi_out := Some [ControlChange 35 0]\<rparr>\<rparr>)"
    by (simp add: t)
  from led_sent_on_every_press [where w = example_window and channel = 1] b
  have 2: "on_midi_button_pressed example_window 1 True = Inr example_window"
    by blast
  from led_sent_on_every_press [where w = example_window and channel = 8] c
  have 3: "on_midi_button_pressed example_window 8 True = Inr example_window"
    by blast
  from a b c 1 2 3 show ?thesis by blast
qed

text \<open>
  Two presses on strip 0 of the example: the mute state is \<open>False\<close> before and after
  each of them, and the LED message with value 0 is sent both times, the second time
  with the state that was sent last.
\<close>

theorem led_resent_unchanged_counterexample:
  "midi_out (midi_handler example_window) = Some []
   \<and> on_midi_button_pressed example_window 0 True =
       Inr (example_window
              \<lparr>midi_handler := (midi_handler example_window)\<lparr>midi_out := Some [ControlChange 32 0]\<rparr>,
               console := [ErrorTogglingMute]\<rparr>)
   \<and> \<not> strip_is_muted (channel_strips example_window ! 0)
   \<and> on_midi_button_pressed
        (example_window
           \<lparr>midi_handler := (midi_handler example_window)\<lparr>midi_out := Some [ControlChange 32 0]\<rparr>,
            console := [ErrorTogglingMute]\<rparr>) 0 True =
       Inr (example_window
              \<lparr>midi_handler :=
                 (midi_handler example_window)
                   \<lparr>midi_out := Some [ControlChange 32 0, ControlChange 32 0]\<rparr>,
               console := [ErrorTogglingMute, ErrorTogglingMute]\<rparr>)"
  by code_simp

subsection \<open>Claim C5: reflecting a mute change made elsewhere\<close>

text \<open>
  C5, as the code has it. A tick of \<open>update_loop\<close> on a handler with lists of the
  allocated lengths always completes. The pass over the strips that follows polling
  leaves the mixer and the MIDI handler exactly as polling left them, so it never
  toggles a mute, and it keeps every strip's selection. Afterwards the cached mute of
  every bound strip equals what \<open>is_muted\<close> returns for its session: the master's mute
  flag for a strip bound to a master endpoint that answers, and the session's mute flag
  for a strip bound to an index of a session that answers.
\<close>

theorem reconciliation_reflects_mute:
  assumes "sized (midi_handler w)"
  shows "\<exists>w1 w'. poll_messages w = Inr w1 \<and> update_loop w = Inr w'
           \<and> audio_mixer w' = audio_mixer w1
           \<and> midi_handler w' = midi_handler w1
           \<and> length (channel_strips w') = length (channel_strips w1)
           \<and> (\<forall>i < length (channel_strips w1).
                 get_selected_session (channel_strips w' ! i) =
                   get_selected_session (channel_strips w1 ! i)
                 \<and> (\<forall>session_idx.
                       get_selected_session (channel_strips w1 ! i) = Some session_idx \<longrightarrow>
                       strip_is_muted (channel_strips w' ! i) =
                         fst (is_muted (audio_mixer w') session_idx)
                       \<and> (session_idx = - 1 \<and> master_responds (master_volume (audio_mixer w'))
                            \<longrightarrow> strip_is_muted (channel_strips w' ! i) =
                                  master_mute (master_volume (audio_mixer w')))
                       \<and> (0 \<le> session_idx
                            \<and> session_idx < int (length (sessions (audio_mixer w')))
                            \<and> responds (sessions (audio_mixer w') ! nat session_idx)
                            \<longrightarrow> strip_is_muted (channel_strips w' ! i) =
                                  mute (sessions (audio_mixer w') ! nat session_idx))))"
proof -
  from poll_messages_total [OF assms] obtain w1 where p: "poll_messages w = Inr w1" ..
  let ?r = "update_strips (audio_mixer w1) (channel_strips w1)"
  let ?w' = "w1\<lparr>channel_strips := fst ?r, console := console w1 @ snd ?r\<rparr>"
  have u: "update_loop w = Inr ?w'"
    using p by (simp add: update_loop_def split: prod.splits)
  have m: "audio_mixer ?w' = audio_mixer w1" "midi_handler ?w' = midi_handler w1"
    by simp_all
  have c: "\<forall>i < length (channel_strips w1).
          get_selected_session (channel_strips ?w' ! i) =
            get_selected_session (channel_strips w1 ! i)
          \<and> (\<forall>session_idx.
                get_selected_session (channel_strips w1 ! i) = Some session_idx \<longrightarrow>
                strip_is_muted (channel_strips ?w' ! i) =
                  fst (is_muted (audio_mixer ?w') session_idx))"
    by (simp add: update_strips_cache)
  have "\<forall>i < length (channel_strips w1).
          get_selected_session (channel_strips ?w' ! i) =
            get_selected_session (channel_strips w1 ! i)
          \<and> (\<forall>session_idx.
                get_selected_session (channel_strips w1 ! i) = Some session_idx \<longrightarrow>
                strip_is_muted (channel_strips ?w' ! i) =
                  fst (is_muted (audio_mixer ?w') session_idx)
                \<and> (session_idx = - 1 \<and> master_responds (master_volume (audio_mixer ?w'))
                     \<longrightarrow> strip_is_muted (channel_strips ?w' ! i) =
                           master_mute (master_volume (audio_mixer ?w')))
                \<and> (0 \<le> session_idx
                     \<and> session_idx < int (length (sessions (audio_mixer ?w')))
                     \<and> responds (sessions (audio_mixer ?w') ! nat session_idx)
                     \<longrightarrow> strip_is_muted (channel_strips ?w' ! i) =
                           mute (sessions (audio_mixer ?w') ! nat session_idx)))"
  proof (intro allI impI conjI)
    fix i assume i: "i < length (channel_strips w1)"
    from c i show "get_selected_session (channel_strips ?w' ! i) =
            get_selected_session (channel_strips w1 ! i)" by blast
    fix session_idx
    assume b: "get_selected_session (channel_strips w1 ! i) = Some session_idx"
    from c i b show e: "strip_is_muted (channel_strips ?w' ! i) =
                  fst (is_muted (audio_mixer ?w') session_idx)" by blast
    {
      assume "session_idx = - 1 \<and> master_responds (master_volume (audio_mixer ?w'))"
      then show "strip_is_muted (channel_strips ?w' ! i) =
                           master_mute (master_volume (audio_mixer ?w'))"
        using e is_muted_master [of "audio_mixer ?w'"] by simp
    }
    {
      assume "0 \<le> session_idx
                     \<and> session_idx < int (length (sessions (audio_mixer ?w')))
                     \<and> responds (sessions (audio_mixer ?w') ! nat session_idx)"
      then show "strip_is_muted (channel_strips ?w' ! i) =
                           mute (sessions (audio_mixer ?w') ! nat session_idx)"
        using e is_muted_session [of session_idx "audio_mixer ?w'"] by simp
    }
  qed
  moreover have "length (channel_strips ?w') = length (channel_strips w1)"
    by (simp add: update_strips_length)
  ultimately show ?thesis using p u m by blast
qed

theorem reconciliation_reflects_mute_witness:
  "sized (midi_handler (select_app example_window 1 (Some (- 1))))
   \<and> (\<exists>w1 w'. poll_messages (select_app example_window 1 (Some (- 1))) = Inr w1
          \<and> update_loop (select_app example_window 1 (Some (- 1))) = Inr w'
          \<and> audio_mixer w' = audio_mixer w1
          \<and> midi_handler w' = midi_handler w1
          \<and> (3::nat) < length (channel_strips w1)
          \<and> get_selected_session (channel_strips w1 ! 3) = Some 2
          \<and> (0::int) \<le> 2 \<and> (2::int) < int (length (sessions (audio_mixer w')))
          \<and> responds (sessions (audio_mixer w') ! nat 2)
          \<and> strip_is_muted (channel_strips w' ! 3) = mute (sessions (audio_mixer w') ! nat 2)
          \<and> mute (sessions (audio_mixer w') ! nat 2)
          \<and> (1::nat) < length (channel_strips w1)
          \<and> get_selected_session (channel_strips w1 ! 1) = Some (- 1)
          \<and> master_responds (master_volume (audio_mixer w'))
          \<and> strip_is_muted (channel_strips w' ! 1) = master_mute (master_volume (audio_mixer w')))"
proof -
  let ?W = "select_app example_window 1 (Some (- 1))"
  have s: "sized (midi_handler ?W)"
    unfolding sized_def by code_simp
  have p: "poll_messages ?W = Inr ?W"
    by code_simp
  have b3: "(3::nat) < length (channel_strips ?W)
           \<and> get_selected_session (channel_strips ?W ! 3) = Some 2"
    by code_simp
  have b1: "(1::nat) < length (channel_strips ?W)
           \<and> get_selected_session (channel_strips ?W ! 1) = Some (- 1)"
    by code_simp
  have r: "(0::int) \<le> 2 \<and> (2::int) < int (length (sessions (audio_mixer ?W)))
           \<and> responds (sessions (audio_mixer ?W) ! nat 2)
           \<and> mute (sessions (audio_mixer ?W) ! nat 2)
           \<and> master_responds (master_volume (audio_mixer ?W))"
    by code_simp
  from reconciliation_reflects_mute [OF s] obtain w1 w' where
    t: "poll_messages ?W = Inr w1" "update_loop ?W = Inr w'"
       "audio_mixer w' = audio_mixer w1" "midi_handler w' = midi_handler w1"
    and q: "\<forall>i < length (channel_strips w1).
                 get_selected_session (channel_strips w' ! i) =
                   get_selected_session (channel_strips w1 ! i)
                 \<and> (\<forall>session_idx.
                       get_selected_session (channel_strips w1 ! i) = Some session_idx \<longrightarrow>
                       strip_is_muted (channel_strips w' ! i) =
                         fst (is_muted (audio_mixer w') session_idx)
                       \<and> (session_idx = - 1 \<and> master_responds (master_volume (audio_mixer w'))
                            \<longrightarrow> strip_is_muted (channel_strips w' ! i) =
                                  master_mute (master_volume (audio_mixer w')))
                       \<and> (0 \<le> session_idx
                            \<and> session_idx < int (length (sessions (audio_mixer w')))
                            \<and> responds (sessions (audio_mixer w') ! nat session_idx)
                            \<longrightarrow> strip_is_muted (channel_strips w' ! i) =
                                  mute (sessions (audio_mixer w') ! nat session_idx)))"
    by blast
  from t(1) p have e: "w1 = ?W" by simp
  with t(3) have m: "audio_mixer w' = audio_mixer ?W" by simp
  from q b3 e r m
  have c3: "strip_is_muted (channel_strips w' ! 3) = mute (sessions (audio_mixer w') ! nat 2)"
    by force
  from q b1 e r m
  have c1: "strip_is_muted (channel_strips w' ! 1) = master_mute (master_volume (audio_mixer w'))"
    by force
  from s t e m b3 b1 r c3 c1 show ?thesis by force
qed

text \<open>
  Strip 3 of the example is bound to session 2, which is muted while the strip still
  caches \<open>False\<close>. One tick sets the cache of strip 3 to \<open>True\<close>; the output port, empty
  before, is empty afterwards: no LED message is sent. And when the game of strip 0,
  which does not answer, has been muted from outside, the tick leaves the cache of
  strip 0 at \<open>False\<close>.
\<close>

theorem reconciliation_counterexample:
  "mute (sessions (audio_mixer example_window) ! 2)
   \<and> get_selected_session (channel_strips example_window ! 3) = Some 2
   \<and> \<not> strip_is_muted (channel_strips example_window ! 3)
   \<and> midi_out (midi_handler example_window) = Some []
   \<and> update_loop example_window =
       Inr (example_window
              \<lparr>channel_strips :=
                 (channel_strips example_window)
                   [3 := set_mute_state (channel_strips example_window ! 3) True],
               console := [ErrorCheckingMute]\<rparr>)
   \<and> get_selected_session (channel_strips example_window_game_muted ! 0) = Some 1
   \<and> mute (sessions (audio_mixer example_window_game_muted) ! 1)
   \<and> update_loop example_window_game_muted =
       Inr (example_window_game_muted
              \<lparr>channel_strips :=
                 (channel_strips example_window_game_muted)
                   [3 := set_mute_state (channel_strips example_window_game_muted ! 3) True],
               console := [ErrorCheckingMute]\<rparr>)
   \<and> \<not> strip_is_muted
         ((channel_strips example_window_game_muted)
            [3 := set_mute_state (channel_strips example_window_game_muted ! 3) True] ! 0)"
  by code_simp

subsection \<open>Claim C1: which button signals toggle the mute\<close>

text \<open>
  C1 on the code at a release. \<open>on_midi_button_pressed\<close> never reads its \<open>state\<close>
  argument: called for strip 3 of the example with \<open>state = False\<close> it toggles the mute
  of session 2 and sends an LED message. Polling a press followed by a release (control
  35 with value 127, then 0) therefore toggles twice: the session ends muted as it
  began, and two LED messages have been sent.
\<close>

theorem release_edge_toggles_mute:
  "get_selected_session (channel_strips example_window ! 3) = Some 2
   \<and> mute (sessions (audio_mixer example_window) ! 2)
   \<and> on_midi_button_pressed example_window 3 False =
       Inr (example_window
              \<lparr>audio_mixer := fst (toggle_mute (audio_mixer example_window) 2),
               channel_strips :=
                 (channel_strips example_window)
                   [3 := set_mute_state (channel_strips example_window ! 3) False],
               midi_handler :=
                 (midi_handler example_window)\<lparr>midi_out := Some [ControlChange 35 0]\<rparr>\<rparr>)
   \<and> \<not> mute (sessions (fst (toggle_mute (audio_mixer example_window) 2)) ! 2)
   \<and> poll_loop example_window [ControlChange 35 127, ControlChange 35 0] =
       Inr (example_window
              \<lparr>midi_handler :=
                 (midi_handler example_window)
                   \<lparr>midi_out := Some [ControlChange 35 0, ControlChange 35 127]\<rparr>,
               channel_strips :=
                 (channel_strips example_window)
                   [3 := set_mute_state (channel_strips example_window ! 3) True]\<rparr>)"
  by code_simp

subsection \<open>Claim C8: the remembered button states across a connect\<close>

text \<open>
  C8, as the code has it. \<open>connect_device\<close> leaves the remembered button booleans, and
  the fader and knob values, as they were; they are all \<open>False\<close> only after
  \<open>__init__\<close>. After a connect, a press on a button channel (raw value at least 64)
  emits \<open>button_pressed\<close> exactly when the boolean remembered for that channel is
  \<open>False\<close>.
\<close>

theorem connect_keeps_button_states:
  "button_states (fst (connect_device h backend input_device_name output_device_name)) =
     button_states h
   \<and> fader_values (fst (connect_device h backend input_device_name output_device_name)) =
     fader_values h
   \<and> knob_values (fst (connect_device h backend input_device_name output_device_name)) =
     knob_values h
   \<and> (sized h \<and> 32 \<le> n \<and> n \<le> 39 \<and> 64 \<le> r \<longrightarrow>
        process_control_change
          (fst (connect_device h backend input_device_name output_device_name))
          (ControlChange n r) =
        Inr (if button_states h ! nat (n - 32)
             then (fst (connect_device h backend input_device_name output_device_name), [])
             else ((fst (connect_device h backend input_device_name output_device_name))
                     \<lparr>button_states := (button_states h)[nat (n - 32) := True]\<rparr>,
                   [ButtonPressed (n - 32) True])))"
proof -
  let ?h' = "fst (connect_device h backend input_device_name output_device_name)"
  have k: "button_states ?h' = button_states h \<and> fader_values ?h' = fader_values h
           \<and> knob_values ?h' = knob_values h"
    by (simp add: connect_device_def close_def Let_def)
  have "process_control_change ?h' (ControlChange n r) =
        Inr (if button_states h ! nat (n - 32) then (?h', [])
             else (?h'\<lparr>button_states := (button_states h)[nat (n - 32) := True]\<rparr>,
                   [ButtonPressed (n - 32) True]))"
    if a: "sized h \<and> 32 \<le> n \<and> n \<le> 39 \<and> 64 \<le> r"
  proof -
    from a k have s: "sized ?h'" by (simp add: sized_def)
    from a have rng: "32 \<le> n" "n \<le> 39" and r: "(64 \<le> r) = True" by simp_all
    from process_button [OF s rng, of r] k r show ?thesis
      by (simp del: process_control_change.simps)
  qed
  with k show ?thesis by blast
qed

theorem connect_keeps_button_states_witness:
  "sized MIDIHandler_init \<and> (32::int) \<le> 32 \<and> (32::int) \<le> 39 \<and> (64::int) \<le> 127
   \<and> process_control_change
        (fst (connect_device MIDIHandler_init example_backend ''nanoKONTROL2'' ''nanoKONTROL2''))
        (ControlChange 32 127) =
       Inr ((fst (connect_device MIDIHandler_init example_backend ''nanoKONTROL2'' ''nanoKONTROL2''))
              \<lparr>button_states := (button_states MIDIHandler_init)[0 := True]\<rparr>,
            [ButtonPressed 0 True])"
proof -
  have b: "button_states MIDIHandler_init ! 0 = False"
    by (simp add: MIDIHandler_init_def)
  from connect_keeps_button_states
         [where h = MIDIHandler_init and backend = example_backend
            and input_device_name = "''nanoKONTROL2''" and output_device_name = "''nanoKONTROL2''"
            and n = 32 and r = 127]
       sized_init b
  show ?thesis by (simp del: process_control_change.simps)
qed

text \<open>
  Button 0 is pressed on a connected handler and is still remembered as pressed when
  the device is connected again; the connect succeeds, the boolean is still \<open>True\<close>,
  and the next press on button 0 emits nothing.
\<close>

theorem reconnect_suppresses_first_press_counterexample:
  "process_control_change
     (fst (connect_device MIDIHandler_init example_backend ''nanoKONTROL2'' ''nanoKONTROL2''))
     (ControlChange 32 127) =
     Inr ((fst (connect_device MIDIHandler_init example_backend ''nanoKONTROL2'' ''nanoKONTROL2''))
            \<lparr>button_states := (button_states MIDIHandler_init)[0 := True]\<rparr>,
          [ButtonPressed 0 True])
   \<and> fst (snd (connect_device
        ((fst (connect_device MIDIHandler_init example_backend ''nanoKONTROL2'' ''nanoKONTROL2''))
            \<lparr>button_states := (button_states MIDIHandler_init)[0 := True]\<rparr>)
        example_backend ''nanoKONTROL2'' ''nanoKONTROL2''))
   \<and> button_states (fst (connect_device
        ((fst (connect_device MIDIHandler_init example_backend ''nanoKONTROL2'' ''nanoKONTROL2''))
            \<lparr>button_states := (button_states MIDIHandler_init)[0 := True]\<rparr>)
        example_backend ''nanoKONTROL2'' ''nanoKONTROL2'')) ! 0
   \<and> process_control_change
       (fst (connect_device
        ((fst (connect_device MIDIHandler_init example_backend ''nanoKONTROL2'' ''nanoKONTROL2''))
            \<lparr>button_states := (button_states MIDIHandler_init)[0 := True]\<rparr>)
        example_backend ''nanoKONTROL2'' ''nanoKONTROL2''))
       (ControlChange 32 127) =
     Inr (fst (connect_device
        ((fst (connect_device MIDIHandler_init example_backend ''nanoKONTROL2'' ''nanoKONTROL2''))
            \<lparr>button_states := (button_states MIDIHandler_init)[0 := True]\<rparr>)
        example_backend ''nanoKONTROL2'' ''nanoKONTROL2''), [])"
  by code_simp

end
